theory Spec2Isabelle
  imports Complex_Main "HOL-Library.Multiset"
begin

section \<open>Data model\<close>

text \<open>
  Python exceptions are values. Only the exceptions that the modelled code can meet are
  told apart; \<open>Exception\<close> stands for any other one (a network error, a database error),
  with its message.
\<close>

datatype exn = KeyError string | ZeroDivisionError | Exception string

fun str :: "exn \<Rightarrow> string" where
  "str (KeyError k) = [CHR 0x27] @ k @ [CHR 0x27]"
| "str ZeroDivisionError = ''division by zero''"
| "str (Exception m) = m"

text \<open>A naive \<open>datetime\<close> value, field by field.\<close>

record datetime =
  year :: nat
  month :: nat
  day :: nat
  hour :: nat
  minute :: nat
  second :: nat
  microsecond :: nat

text \<open>
  A row of \<open>shares_table\<close>, restricted to the three columns that \<open>update_nav\<close> reads.
  The timestamp type is any linear order (for \<open>datetime64\<close> values with \<open>NaT\<close>, an option
  type with \<open>NaT\<close> as least element, which is where a descending \<open>sort_values\<close> puts it).
  A \<open>shares\<close> cell is \<open>None\<close> when it is null (\<open>pd.isna\<close>). Numbers are idealised as reals.
\<close>

record 't share_row =
  timestamp :: 't
  pm :: string
  shares :: "real option"

text \<open>
  The rows of \<open>self.df\<close> (columns \<open>timestamp\<close>, \<open>pm\<close>, \<open>balance\<close>), of the merged frame
  (with \<open>shares\<close>) and of the frame written to \<open>nav_table\<close> (with \<open>nav\<close>).
\<close>

record price_row =
  timestamp :: datetime
  pm :: string
  balance :: real

record joined_row = price_row +
  shares :: "real option"

record nav_row = joined_row +
  nav :: real

text \<open>A data frame: its column labels and its rows, in index order.\<close>

record 'a DataFrame =
  columns :: "string list"
  rows :: "'a list"

definition DataFrame_new :: "string list \<Rightarrow> 'a DataFrame" where
  "DataFrame_new cols = \<lparr>columns = cols, rows = []\<rparr>"

text \<open>\<open>df.empty\<close>: some axis has length 0.\<close>

definition empty_df :: "'a DataFrame \<Rightarrow> bool" where
  "empty_df d \<longleftrightarrow> columns d = [] \<or> rows d = []"

text \<open>\<open>pd.concat([a, b], ignore_index=True)\<close>: the rows of both, the union of the columns.\<close>

definition concat_df :: "'a DataFrame \<Rightarrow> 'a DataFrame \<Rightarrow> 'a DataFrame" where
  "concat_df a b =
     \<lparr>columns = columns a @ filter (\<lambda>c. c \<notin> set (columns a)) (columns b),
      rows = rows a @ rows b\<rparr>"

section \<open>The price tracker (main.py)\<close>

text \<open>The class attribute \<open>COIN_MAPPINGS\<close>, a dict in insertion order.\<close>

definition COIN_MAPPINGS :: "(string \<times> string) list" where
  "COIN_MAPPINGS =
     [(''BTCUSDT'', ''benchmark_btc''),
      (''ETHUSDT'', ''benchmark_eth''),
      (''SOLUSDT'', ''benchmark_sol'')]"

text \<open>
  The outside world of the tracker: the exchange and the clock. \<open>ticker_price k symbol\<close>
  is the outcome of lines 78 to 84 (the request, reading the response and \<open>float\<close>) for the
  request sent after \<open>k\<close> earlier ones; \<open>datetime_now k\<close> is what \<open>datetime.now()\<close> returns
  once \<open>k\<close> requests have been sent.
\<close>

record world =
  ticker_price :: "nat \<Rightarrow> string \<Rightarrow> exn + real"
  datetime_now :: "nat \<Rightarrow> datetime"

text \<open>
  The tracker object: its frame \<open>self.df\<close>, and the requests its client has sent so far,
  in order.
\<close>

record tracker =
  df :: "price_row DataFrame"
  client_calls :: "string list"

definition init :: tracker where
  "init = \<lparr>df = DataFrame_new [''timestamp'', ''pm'', ''balance''], client_calls = []\<rparr>"

definition get_ticker_price :: "world \<Rightarrow> string \<Rightarrow> tracker \<Rightarrow> real option \<times> tracker" where
  "get_ticker_price w symbol s =
     (let s' = s\<lparr>client_calls := client_calls s @ [symbol]\<rparr> in
      case ticker_price w (length (client_calls s)) symbol of
        Inr price \<Rightarrow> (Some price, s')
      | Inl e \<Rightarrow> (None, s'))"

definition get_current_timestamp :: "datetime \<Rightarrow> datetime" where
  "get_current_timestamp now = now\<lparr>second := 0, microsecond := 0\<rparr>"

text \<open>
  \<open>add_price_record\<close>. The lookup \<open>self.COIN_MAPPINGS[symbol]\<close> of line 122 is the \<open>Some\<close>
  branch of the membership test of line 113.
\<close>

definition add_price_record :: "world \<Rightarrow> string \<Rightarrow> tracker \<Rightarrow> bool \<times> tracker" where
  "add_price_record w symbol s =
     (case map_of COIN_MAPPINGS symbol of
        None \<Rightarrow> (False, s)
      | Some pm_name \<Rightarrow>
          (case get_ticker_price w symbol s of
             (None, s1) \<Rightarrow> (False, s1)
           | (Some price, s1) \<Rightarrow>
               (let timestamp = get_current_timestamp (datetime_now w (length (client_calls s1)));
                    new_record = \<lparr>columns = [''timestamp'', ''pm'', ''balance''],
                                  rows = [\<lparr>timestamp = timestamp, pm = pm_name, balance = price\<rparr>]\<rparr>
                in (True, s1\<lparr>df := concat_df (df s1) new_record\<rparr>))))"

text \<open>The loop of \<open>add_multiple_prices\<close>, with its counter.\<close>

fun add_prices_loop :: "world \<Rightarrow> string list \<Rightarrow> nat \<Rightarrow> tracker \<Rightarrow> nat \<times> tracker" where
  "add_prices_loop w [] success_count s = (success_count, s)"
| "add_prices_loop w (symbol # symbols) success_count s =
     (case add_price_record w symbol s of
        (True, s') \<Rightarrow> add_prices_loop w symbols (success_count + 1) s'
      | (False, s') \<Rightarrow> add_prices_loop w symbols success_count s')"

definition add_multiple_prices :: "world \<Rightarrow> string list option \<Rightarrow> tracker \<Rightarrow> nat \<times> tracker" where
  "add_multiple_prices w symbols s =
     (let symbols' = (case symbols of None \<Rightarrow> map fst COIN_MAPPINGS | Some l \<Rightarrow> l)
      in add_prices_loop w symbols' 0 s)"

definition get_latest_price :: "tracker \<Rightarrow> string \<Rightarrow> real option" where
  "get_latest_price s pm_name =
     (let filtered = filter (\<lambda>r. pm r = pm_name) (rows (df s)) in
      if filtered = [] then None else Some (balance (last filtered)))"

section \<open>The store (db_utils.py)\<close>

text \<open>
  The store as the writes see it: the content of each table (\<open>None\<close> when the table does
  not exist) and the \<open>to_sql\<close> calls issued so far.
\<close>

datatype if_exists = if_exists_append | if_exists_replace

record 'a db =
  tables :: "string \<rightharpoonup> 'a list"
  to_sql_calls :: "(string \<times> if_exists) list"

text \<open>
  The store's side of the interface. \<open>create_engine\<close> is the exception, if any, that
  \<open>create_engine(connection_string)\<close> raises: the call builds a lazy engine object and
  connects to nothing, but it raises when the connection string cannot be parsed. With an
  engine, \<open>read_sql query\<close> is the outcome of \<open>pd.read_sql\<close>, and \<open>to_sql_error k\<close> is
  the exception, if any, with which the \<open>to_sql\<close> call issued after \<open>k\<close> earlier ones
  fails.
\<close>

record 't store =
  create_engine :: "exn option"
  read_sql :: "string \<Rightarrow> exn + 't share_row DataFrame"
  to_sql_error :: "nat \<Rightarrow> exn option"

text \<open>
  \<open>df.to_sql(table_name, engine, if_exists=mode, index=False)\<close>: the new state and the
  exception raised, if any. A failed call writes nothing.
\<close>

definition to_sql :: "'t store \<Rightarrow> string \<Rightarrow> if_exists \<Rightarrow> 'a DataFrame \<Rightarrow> 'a db \<Rightarrow> 'a db \<times> exn option" where
  "to_sql st table_name mode d b =
     (let b' = b\<lparr>to_sql_calls := to_sql_calls b @ [(table_name, mode)]\<rparr> in
      case to_sql_error st (length (to_sql_calls b)) of
        Some e \<Rightarrow> (b', Some e)
      | None \<Rightarrow>
          (let old = (case tables b table_name of None \<Rightarrow> [] | Some xs \<Rightarrow> xs);
               content = (case mode of if_exists_append \<Rightarrow> old @ rows d
                                     | if_exists_replace \<Rightarrow> rows d)
           in (b'\<lparr>tables := (tables b)(table_name \<mapsto> content)\<rparr>, None)))"

text \<open>
  \<open>get_db_table\<close> returns the frame and what it printed. \<open>create_engine\<close> is called
  before the \<open>try\<close> block, so its exception reaches the caller. The \<open>except\<close> branch
  returns \<open>pd.DataFrame()\<close>, a frame with no columns and no rows.
\<close>

definition get_db_table :: "'t store \<Rightarrow> string \<Rightarrow> exn + ('t share_row DataFrame \<times> string list)" where
  "get_db_table st query =
     (case create_engine st of
        Some e \<Rightarrow> Inl e
      | None \<Rightarrow>
          (case read_sql st query of
             Inr d \<Rightarrow> Inr (d, [])
           | Inl e \<Rightarrow>
               Inr (DataFrame_new [],
                    [''Error encountered getting sql table with this query '' @ query
                       @ '':  '' @ str e])))"

text \<open>
  The two writers return the new state and the exception that escapes them. The first
  statement of each is \<open>create_engine(connection_string)\<close>, before the test of \<open>df.empty\<close>
  and outside the \<open>try\<close> block: its exception escapes. The \<open>except\<close> branch around
  \<open>to_sql\<close> prints and falls through.
\<close>

definition df_to_table :: "'t store \<Rightarrow> string \<Rightarrow> 'a DataFrame \<Rightarrow> 'a db \<Rightarrow> 'a db \<times> exn option" where
  "df_to_table st table_name d b =
     (case create_engine st of
        Some e \<Rightarrow> (b, Some e)
      | None \<Rightarrow>
          (if empty_df d then (b, None)
           else (case to_sql st table_name if_exists_append d b of
                   (b', Some e) \<Rightarrow> (b', None)
                 | (b', None) \<Rightarrow> (b', None))))"

definition df_replace_table :: "'t store \<Rightarrow> string \<Rightarrow> 'a DataFrame \<Rightarrow> 'a db \<Rightarrow> 'a db \<times> exn option" where
  "df_replace_table st table_name d b =
     (case create_engine st of
        Some e \<Rightarrow> (b, Some e)
      | None \<Rightarrow>
          (if empty_df d then (b, None)
           else (case to_sql st table_name if_exists_replace d b of
                   (b', Some e) \<Rightarrow> (b', None)
                 | (b', None) \<Rightarrow> (b', None))))"

section \<open>The NAV step (main.py, update_nav)\<close>

text \<open>\<open>frame[label]\<close> raises \<open>KeyError\<close> when the frame has no such column.\<close>

definition getitem :: "'a DataFrame \<Rightarrow> string \<Rightarrow> exn + unit" where
  "getitem d label = (if label \<in> set (columns d) then Inr () else Inl (KeyError label))"

text \<open>
  \<open>sort_values(by='timestamp', ascending=False)\<close> uses pandas' default sort, which is not
  stable: the order of rows with equal timestamps is not fixed. The sort is therefore a
  parameter \<open>srt\<close> of the NAV step, and \<open>is_sort_values srt xs\<close> says what any such sort
  does on the rows \<open>xs\<close>: it permutes them into descending timestamp order.
\<close>

definition is_sort_values :: "('t::linorder share_row list \<Rightarrow> 't share_row list) \<Rightarrow> 't share_row list \<Rightarrow> bool" where
  "is_sort_values srt xs \<longleftrightarrow>
     mset (srt xs) = mset xs
     \<and> sorted_wrt (\<lambda>a b. share_row.timestamp b \<le> share_row.timestamp a) (srt xs)"

text \<open>One such sort, the stable one.\<close>

definition sort_values_stable :: "'t::linorder share_row list \<Rightarrow> 't share_row list" where
  "sort_values_stable xs = rev (sort_key share_row.timestamp (rev xs))"

text \<open>
  \<open>drop_duplicates(subset=...)\<close> keeps the first row of each key: a row is dropped when
  its key was seen in an earlier row.
\<close>

fun drop_duplicates_from :: "('a \<Rightarrow> 'k) \<Rightarrow> 'k list \<Rightarrow> 'a list \<Rightarrow> 'a list" where
  "drop_duplicates_from key seen [] = []"
| "drop_duplicates_from key seen (r # rs) =
     (if key r \<in> set seen then drop_duplicates_from key seen rs
      else r # drop_duplicates_from key (key r # seen) rs)"

definition drop_duplicates :: "('a \<Rightarrow> 'k) \<Rightarrow> 'a list \<Rightarrow> 'a list" where
  "drop_duplicates key rs = drop_duplicates_from key [] rs"

definition latest_shares_of :: "('t share_row list \<Rightarrow> 't share_row list) \<Rightarrow> 't share_row list \<Rightarrow> 't share_row list" where
  "latest_shares_of srt xs = drop_duplicates share_row.pm (srt xs)"

text \<open>
  \<open>pd.merge(left, right, on='pm', how='left')\<close> with \<open>right\<close> the columns \<open>pm\<close> and
  \<open>shares\<close>: each left row, in order, once per right row of the same \<open>pm\<close>, and once with a
  null \<open>shares\<close> when there is none.
\<close>

definition with_shares :: "price_row \<Rightarrow> real option \<Rightarrow> joined_row" where
  "with_shares l sh = \<lparr>timestamp = timestamp l, pm = pm l, balance = balance l, shares = sh\<rparr>"

definition merge_left :: "price_row list \<Rightarrow> (string \<times> real option) list \<Rightarrow> joined_row list" where
  "merge_left left right =
     concat (map (\<lambda>l. case filter (\<lambda>r. fst r = pm l) right of
                         [] \<Rightarrow> [with_shares l None]
                       | ms \<Rightarrow> map (\<lambda>r. with_shares l (snd r)) ms) left)"

text \<open>Python's \<open>/\<close>, and the lambda of lines 215 to 218.\<close>

definition py_div :: "real \<Rightarrow> real \<Rightarrow> exn + real" where
  "py_div a b = (if b = 0 then Inl ZeroDivisionError else Inr (a / b))"

definition nav_of_row :: "joined_row \<Rightarrow> exn + real" where
  "nav_of_row row =
     (case shares row of
        None \<Rightarrow> Inr 0
      | Some sh \<Rightarrow> if sh = 0 then Inr 0 else py_div (balance row) sh)"

definition with_nav :: "joined_row \<Rightarrow> real \<Rightarrow> nav_row" where
  "with_nav j v =
     \<lparr>timestamp = timestamp j, pm = pm j, balance = balance j, shares = shares j, nav = v\<rparr>"

text \<open>\<open>apply(f, axis=1)\<close> followed by the assignment of the column: the first exception ends it.\<close>

fun apply_nav :: "joined_row list \<Rightarrow> exn + nav_row list" where
  "apply_nav [] = Inr []"
| "apply_nav (row # rest) =
     (case nav_of_row row of
        Inl e \<Rightarrow> Inl e
      | Inr v \<Rightarrow> (case apply_nav rest of
                   Inl e \<Rightarrow> Inl e
                 | Inr vs \<Rightarrow> Inr (with_nav row v # vs)))"

text \<open>
  Lines 208 to 218, the part of the \<open>try\<close> block that computes \<open>result_df\<close>. The column
  \<open>timestamp\<close> of a frame read from the store already holds timestamps, so \<open>pd.to_datetime\<close>
  leaves it as it is.
\<close>

definition compute_nav :: "'t store \<Rightarrow> ('t share_row list \<Rightarrow> 't share_row list) \<Rightarrow> tracker \<Rightarrow> exn + nav_row DataFrame" where
  "compute_nav st srt s =
     (case get_db_table st ''select * from shares_table;'' of
        Inl e \<Rightarrow> Inl e
      | Inr (shares_df, printed) \<Rightarrow>
          (case getitem shares_df ''timestamp'' of
             Inl e \<Rightarrow> Inl e
           | Inr _ \<Rightarrow>
               (case getitem shares_df ''pm'' of
                  Inl e \<Rightarrow> Inl e
                | Inr _ \<Rightarrow>
                    (let latest_shares = latest_shares_of srt (rows shares_df) in
                     case getitem shares_df ''shares'' of
                       Inl e \<Rightarrow> Inl e
                     | Inr _ \<Rightarrow>
                         (let right = map (\<lambda>r. (share_row.pm r, share_row.shares r)) latest_shares;
                              merged = merge_left (rows (df s)) right
                          in case apply_nav merged of
                               Inl e \<Rightarrow> Inl e
                             | Inr result \<Rightarrow>
                                 Inr \<lparr>columns = columns (df s) @ [''shares'', ''nav''],
                                      rows = result\<rparr>)))))"

text \<open>
  \<open>update_nav\<close>: the whole body is one \<open>try\<close> block, whose \<open>except\<close> branch logs and
  returns. An exception of the computation leaves the store as it was; one that escapes
  \<open>df_to_table\<close> is caught as well.
\<close>

definition update_nav :: "'t store \<Rightarrow> ('t share_row list \<Rightarrow> 't share_row list) \<Rightarrow> tracker \<Rightarrow> nav_row db \<Rightarrow> nav_row db \<times> exn option" where
  "update_nav st srt s b =
     (case compute_nav st srt s of
        Inl e \<Rightarrow> (b, None)
      | Inr result_df \<Rightarrow>
          (case df_to_table st ''nav_table'' result_df b of
             (b', Some e) \<Rightarrow> (b', None)
           | (b', None) \<Rightarrow> (b', None)))"

section \<open>Notions used to state the properties\<close>

text \<open>A timestamp with zero seconds and zero sub-second part.\<close>

definition whole_minute :: "datetime \<Rightarrow> bool" where
  "whole_minute t \<longleftrightarrow> second t = 0 \<and> microsecond t = 0"

text \<open>
  \<open>t\<close> is the clock reading \<open>now\<close> truncated to the minute: the same year, month, day,
  hour and minute, with zero seconds and microseconds.
\<close>

definition truncated_to_minute :: "datetime \<Rightarrow> datetime \<Rightarrow> bool" where
  "truncated_to_minute now t \<longleftrightarrow>
     year t = year now \<and> month t = month now \<and> day t = day now
     \<and> hour t = hour now \<and> minute t = minute now
     \<and> second t = 0 \<and> microsecond t = 0"

text \<open>
  Requests are numbered in the order in which they are sent. \<open>fetch_fails w (k, symbol)\<close>
  says that request number \<open>k\<close>, for \<open>symbol\<close>, fails; \<open>fetched_row w (k, symbol)\<close> is the
  record that \<open>add_price_record\<close> builds when it succeeds.
\<close>

definition fetch_fails :: "world \<Rightarrow> nat \<times> string \<Rightarrow> bool" where
  "fetch_fails w = (\<lambda>(k, symbol). isl (ticker_price w k symbol))"

definition fetched_row :: "world \<Rightarrow> nat \<times> string \<Rightarrow> price_row" where
  "fetched_row w = (\<lambda>(k, symbol).
     \<lparr>timestamp = get_current_timestamp (datetime_now w (Suc k)),
      pm = the (map_of COIN_MAPPINGS symbol),
      balance = projr (ticker_price w k symbol)\<rparr>)"

text \<open>
  The \<open>shares\<close> value that the join gives to the asset \<open>name\<close>: that of its row in the
  latest-shares projection, null when it has no row there.
\<close>

definition joined_shares :: "'t share_row list \<Rightarrow> string \<Rightarrow> real option" where
  "joined_shares latest name =
     (case find (\<lambda>x. share_row.pm x = name) latest of
        None \<Rightarrow> None
      | Some x \<Rightarrow> share_row.shares x)"

definition nav_value :: "real \<Rightarrow> real option \<Rightarrow> real" where
  "nav_value price sh = (case sh of None \<Rightarrow> 0 | Some v \<Rightarrow> if v = 0 then 0 else price / v)"

section \<open>Sample inputs\<close>

definition sample_now :: datetime where
  "sample_now = \<lparr>year = 2025, month = 3, day = 14, hour = 9, minute = 26,
                  second = 53, microsecond = 589793\<rparr>"

text \<open>An exchange that has no quote for \<open>ETHUSDT\<close>, and a clock that advances.\<close>

definition sample_world :: world where
  "sample_world =
     \<lparr>ticker_price = (\<lambda>k symbol. if symbol = ''ETHUSDT'' then Inl (Exception ''timeout'')
                                 else Inr (100 + real k)),
      datetime_now = (\<lambda>k. sample_now\<lparr>second := 50 + k\<rparr>)\<rparr>"

text \<open>An exchange whose first request fails and whose later requests succeed.\<close>

definition flaky_world :: world where
  "flaky_world =
     \<lparr>ticker_price = (\<lambda>k symbol. if k = 0 then Inl (Exception ''timeout'') else Inr 100),
      datetime_now = (\<lambda>k. sample_now)\<rparr>"

text \<open>
  The table \<open>[(t1, A, 10), (t2, A, 12), (t1, B, 5)]\<close>, where the record appended second has
  the earlier timestamp.
\<close>

definition sample_table :: tracker where
  "sample_table =
     \<lparr>df = \<lparr>columns = [''timestamp'', ''pm'', ''balance''],
            rows = [\<lparr>timestamp = sample_now, pm = ''A'', balance = 10\<rparr>,
                    \<lparr>timestamp = sample_now\<lparr>minute := 3\<rparr>, pm = ''A'', balance = 12\<rparr>,
                    \<lparr>timestamp = sample_now, pm = ''B'', balance = 5\<rparr>]\<rparr>,
      client_calls = []\<rparr>"

text \<open>A cycle's table with one price per configured asset.\<close>

definition sample_minute :: datetime where
  "sample_minute = \<lparr>year = 2025, month = 3, day = 14, hour = 9, minute = 26,
                     second = 0, microsecond = 0\<rparr>"

definition sample_cycle :: tracker where
  "sample_cycle =
     \<lparr>df = \<lparr>columns = [''timestamp'', ''pm'', ''balance''],
            rows = [\<lparr>timestamp = sample_minute, pm = ''benchmark_btc'', balance = 100\<rparr>,
                    \<lparr>timestamp = sample_minute, pm = ''benchmark_eth'', balance = 7\<rparr>,
                    \<lparr>timestamp = sample_minute, pm = ''benchmark_sol'', balance = 5\<rparr>]\<rparr>,
      client_calls = [''BTCUSDT'', ''ETHUSDT'', ''SOLUSDT'']\<rparr>"

text \<open>
  A shares table, with timestamps as numbers: the latest row of \<open>benchmark_btc\<close> has 50
  shares, the latest row of \<open>benchmark_eth\<close> has none, and \<open>benchmark_sol\<close> has no row.
\<close>

definition sample_shares :: "nat share_row list" where
  "sample_shares =
     [\<lparr>share_row.timestamp = 1, share_row.pm = ''benchmark_btc'', share_row.shares = Some 0\<rparr>,
      \<lparr>share_row.timestamp = 1, share_row.pm = ''benchmark_eth'', share_row.shares = Some 4\<rparr>,
      \<lparr>share_row.timestamp = 2, share_row.pm = ''benchmark_btc'', share_row.shares = Some 50\<rparr>,
      \<lparr>share_row.timestamp = 3, share_row.pm = ''benchmark_eth'', share_row.shares = Some 0\<rparr>]"

definition sample_store :: "nat store" where
  "sample_store =
     \<lparr>create_engine = None,
      read_sql = (\<lambda>query. Inr \<lparr>columns = [''timestamp'', ''pm'', ''shares''],
                                rows = sample_shares\<rparr>),
      to_sql_error = (\<lambda>k. None)\<rparr>"

text \<open>A store that is down: every read and every write fails.\<close>

definition failing_store :: "nat store" where
  "failing_store =
     \<lparr>create_engine = None,
      read_sql = (\<lambda>query. Inl (Exception ''connection refused'')),
      to_sql_error = (\<lambda>k. Some (Exception ''connection refused''))\<rparr>"

text \<open>A configuration whose connection string cannot be parsed: no engine is built.\<close>

definition unparsable_store :: "nat store" where
  "unparsable_store =
     \<lparr>create_engine = Some (Exception ''Could not parse SQLAlchemy URL''),
      read_sql = (\<lambda>query. Inl (Exception ''no engine'')),
      to_sql_error = (\<lambda>k. Some (Exception ''no engine''))\<rparr>"

text \<open>The NAV rows of \<open>sample_cycle\<close> against \<open>sample_shares\<close>.\<close>

definition sample_nav_rows :: "nav_row list" where
  "sample_nav_rows =
     [\<lparr>timestamp = sample_minute, pm = ''benchmark_btc'', balance = 100,
       shares = Some 50, nav = 2\<rparr>,
      \<lparr>timestamp = sample_minute, pm = ''benchmark_eth'', balance = 7,
       shares = Some 0, nav = 0\<rparr>,
      \<lparr>timestamp = sample_minute, pm = ''benchmark_sol'', balance = 5,
       shares = None, nav = 0\<rparr>]"

text \<open>A store whose \<open>nav_table\<close> holds one row of an earlier cycle.\<close>

definition old_nav_row :: nav_row where
  "old_nav_row =
     \<lparr>timestamp = sample_minute\<lparr>minute := 25\<rparr>, pm = ''benchmark_btc'', balance = 98,
      shares = Some 49, nav = 2\<rparr>"

definition sample_db :: "nav_row db" where
  "sample_db = \<lparr>tables = [''nav_table'' \<mapsto> [old_nav_row]], to_sql_calls = []\<rparr>"

section \<open>Unknown symbols\<close>

text \<open>
  C10. A symbol that is not a key of \<open>COIN_MAPPINGS\<close> makes \<open>add_price_record\<close> return
  \<open>False\<close> with the tracker as it was: the frame is unchanged and no request was sent.
\<close>

theorem add_price_record_unknown_symbol:
  assumes "symbol \<notin> set (map fst COIN_MAPPINGS)"
  shows "add_price_record w symbol s = (False, s)"
proof -
  from assms have "map_of COIN_MAPPINGS symbol = None"
    by (simp add: map_of_eq_None_iff)
  then show ?thesis
    by (simp add: add_price_record_def)
qed

theorem add_price_record_unknown_symbol_witness:
  "''BNBUSDT'' \<notin> set (map fst COIN_MAPPINGS)
   \<and> add_price_record sample_world ''BNBUSDT'' init = (False, init)
   \<and> client_calls (snd (add_price_record sample_world ''BNBUSDT'' init)) = []
   \<and> rows (df (snd (add_price_record sample_world ''BNBUSDT'' init))) = []"
proof -
  have h: "''BNBUSDT'' \<notin> set (map fst COIN_MAPPINGS)"
    by (simp add: COIN_MAPPINGS_def)
  from add_price_record_unknown_symbol [OF h, of sample_world init] h show ?thesis
    by (simp add: init_def DataFrame_new_def)
qed

section \<open>Lookup of the latest price\<close>

text \<open>
  C6. \<open>get_latest_price\<close> returns the price of the record for the asset that stands last
  in the table, whatever the timestamps are, and \<open>None\<close> exactly when the table has no
  record for the asset.
\<close>

theorem get_latest_price_last_position:
  "(get_latest_price s p = None \<longleftrightarrow> p \<notin> pm ` set (rows (df s)))
   \<and> (\<forall>i. i < length (rows (df s)) \<and> pm (rows (df s) ! i) = p
          \<and> (\<forall>j. i < j \<and> j < length (rows (df s)) \<longrightarrow> pm (rows (df s) ! j) \<noteq> p)
        \<longrightarrow> get_latest_price s p = Some (balance (rows (df s) ! i)))"
proof (intro conjI allI impI)
  show "get_latest_price s p = None \<longleftrightarrow> p \<notin> pm ` set (rows (df s))"
    by (auto simp: get_latest_price_def Let_def filter_empty_conv)
next
  fix i
  let ?xs = "rows (df s)"
  assume a: "i < length ?xs \<and> pm (?xs ! i) = p
      \<and> (\<forall>j. i < j \<and> j < length ?xs \<longrightarrow> pm (?xs ! j) \<noteq> p)"
  then have split: "?xs = take i ?xs @ (?xs ! i) # drop (Suc i) ?xs"
    by (simp add: id_take_nth_drop)
  have "\<forall>x \<in> set (drop (Suc i) ?xs). pm x \<noteq> p"
  proof
    fix x assume "x \<in> set (drop (Suc i) ?xs)"
    then obtain k where k: "k < length (drop (Suc i) ?xs)" "x = drop (Suc i) ?xs ! k"
      by (auto simp: in_set_conv_nth)
    then have "x = ?xs ! (Suc i + k)" "Suc i + k < length ?xs" by auto
    with a show "pm x \<noteq> p" by auto
  qed
  then have "filter (\<lambda>r. pm r = p) (drop (Suc i) ?xs) = []"
    by (simp add: filter_empty_conv)
  then have "filter (\<lambda>r. pm r = p) ?xs = filter (\<lambda>r. pm r = p) (take i ?xs) @ [?xs ! i]"
    using a by (subst split) simp
  then show "get_latest_price s p = Some (balance (?xs ! i))"
    by (simp add: get_latest_price_def Let_def)
qed

theorem get_latest_price_last_position_witness:
  "get_latest_price sample_table ''A'' = Some 12
   \<and> get_latest_price sample_table ''B'' = Some 5
   \<and> get_latest_price sample_table ''C'' = None
   \<and> minute (timestamp (rows (df sample_table) ! 1)) < minute (timestamp (rows (df sample_table) ! 0))"
proof -
  have len: "length (rows (df sample_table)) = 3"
    by (simp add: sample_table_def)
  have later: "i < j \<and> j < 3 \<longleftrightarrow> (i = 0 \<and> (j = 1 \<or> j = 2)) \<or> (i = 1 \<and> j = 2)" for i j :: nat
    by arith
  have hA: "1 < length (rows (df sample_table)) \<and> pm (rows (df sample_table) ! 1) = ''A''
      \<and> (\<forall>j. 1 < j \<and> j < length (rows (df sample_table)) \<longrightarrow> pm (rows (df sample_table) ! j) \<noteq> ''A'')"
    unfolding len later by (simp add: sample_table_def)
  have hB: "2 < length (rows (df sample_table)) \<and> pm (rows (df sample_table) ! 2) = ''B''
      \<and> (\<forall>j. 2 < j \<and> j < length (rows (df sample_table)) \<longrightarrow> pm (rows (df sample_table) ! j) \<noteq> ''B'')"
    unfolding len later by (simp add: sample_table_def)
  have hC: "''C'' \<notin> pm ` set (rows (df sample_table))"
    by (simp add: sample_table_def)
  have A: "get_latest_price sample_table ''A'' = Some (balance (rows (df sample_table) ! 1))"
    using get_latest_price_last_position [of sample_table "''A''"] hA by blast
  have B: "get_latest_price sample_table ''B'' = Some (balance (rows (df sample_table) ! 2))"
    using get_latest_price_last_position [of sample_table "''B''"] hB by blast
  have C: "get_latest_price sample_table ''C'' = None"
    using get_latest_price_last_position [of sample_table "''C''"] hC by blast
  have vals: "balance (rows (df sample_table) ! 1) = 12" "balance (rows (df sample_table) ! 2) = 5"
    "minute (timestamp (rows (df sample_table) ! 1)) < minute (timestamp (rows (df sample_table) ! 0))"
    by (simp_all add: sample_table_def sample_now_def)
  from A B C vals show ?thesis by simp
qed

section \<open>Fetching the configured assets\<close>

lemma rows_concat_df: "rows (concat_df a b) = rows a @ rows b"
  by (simp add: concat_df_def)

lemma add_price_record_configured:
  assumes "map_of COIN_MAPPINGS symbol = Some name"
  shows "add_price_record w symbol s =
     (case ticker_price w (length (client_calls s)) symbol of
        Inl e \<Rightarrow> (False, s\<lparr>client_calls := client_calls s @ [symbol]\<rparr>)
      | Inr price \<Rightarrow>
          (True, s\<lparr>client_calls := client_calls s @ [symbol],
                   df := concat_df (df s)
                     \<lparr>columns = [''timestamp'', ''pm'', ''balance''],
                      rows = [\<lparr>timestamp = get_current_timestamp
                                 (datetime_now w (Suc (length (client_calls s)))),
                               pm = name, balance = price\<rparr>]\<rparr>\<rparr>))"
  using assms
  by (simp add: add_price_record_def get_ticker_price_def Let_def split: sum.splits)

lemma get_current_timestamp_truncates: "truncated_to_minute now (get_current_timestamp now)"
  by (simp add: truncated_to_minute_def get_current_timestamp_def)

lemma truncated_whole_minute: "truncated_to_minute now t \<Longrightarrow> whole_minute t"
  by (simp add: truncated_to_minute_def whole_minute_def)

lemma add_price_record_rows:
  "\<exists>new. rows (df (snd (add_price_record w symbol s))) = rows (df s) @ new
     \<and> (\<forall>r \<in> set new.
           truncated_to_minute (datetime_now w (Suc (length (client_calls s)))) (timestamp r))"
  by (auto simp: add_price_record_def get_ticker_price_def Let_def rows_concat_df
      get_current_timestamp_truncates split: option.splits sum.splits)

lemma add_price_record_calls:
  "length (client_calls s) \<le> length (client_calls (snd (add_price_record w symbol s)))"
  by (auto simp: add_price_record_def get_ticker_price_def Let_def
      split: option.splits sum.splits)

lemma add_prices_loop_rows:
  "\<exists>new. rows (df (snd (add_prices_loop w symbols c s))) = rows (df s) @ new
     \<and> (\<forall>r \<in> set new. \<exists>k. length (client_calls s) < k
            \<and> truncated_to_minute (datetime_now w k) (timestamp r))"
proof (induction symbols arbitrary: c s)
  case Nil
  then show ?case by simp
next
  case (Cons symbol symbols)
  obtain ok s1 where s1: "add_price_record w symbol s = (ok, s1)" by force
  with add_price_record_rows [of w symbol s]
  obtain new1 where n1: "rows (df s1) = rows (df s) @ new1"
    "\<forall>r \<in> set new1.
       truncated_to_minute (datetime_now w (Suc (length (client_calls s)))) (timestamp r)"
    by auto
  from s1 add_price_record_calls [of s w symbol]
  have calls: "length (client_calls s) \<le> length (client_calls s1)" by simp
  from Cons.IH [of _ s1] obtain new2 where n2:
    "rows (df (snd (add_prices_loop w symbols (if ok then c + 1 else c) s1))) = rows (df s1) @ new2"
    "\<forall>r \<in> set new2. \<exists>k. length (client_calls s1) < k
        \<and> truncated_to_minute (datetime_now w k) (timestamp r)"
    by blast
  have "rows (df (snd (add_prices_loop w (symbol # symbols) c s))) = rows (df s) @ (new1 @ new2)"
    using s1 n1 n2 by (cases ok) simp_all
  moreover have "\<forall>r \<in> set (new1 @ new2). \<exists>k. length (client_calls s) < k
        \<and> truncated_to_minute (datetime_now w k) (timestamp r)"
  proof
    fix r assume "r \<in> set (new1 @ new2)"
    then consider "r \<in> set new1" | "r \<in> set new2" by auto
    then show "\<exists>k. length (client_calls s) < k
        \<and> truncated_to_minute (datetime_now w k) (timestamp r)"
    proof cases
      case 1
      with n1(2) have "truncated_to_minute (datetime_now w (Suc (length (client_calls s))))
          (timestamp r)" by blast
      then show ?thesis by (intro exI [where x = "Suc (length (client_calls s))"]) simp
    next
      case 2
      with n2(2) obtain k where "length (client_calls s1) < k"
        "truncated_to_minute (datetime_now w k) (timestamp r)" by blast
      with calls show ?thesis by (intro exI [where x = k]) simp
    qed
  qed
  ultimately show ?case by blast
qed

text \<open>
  C5. \<open>get_current_timestamp\<close> keeps the year, month, day, hour and minute of the clock
  reading and sets the seconds and microseconds to zero. Every record that
  \<open>add_price_record\<close> or \<open>add_multiple_prices\<close> appends carries such a truncated clock
  reading, whatever the clock shows. The table starts empty, so after any run of appends
  all its timestamps are whole minutes.
\<close>

theorem appended_timestamps_whole_minute:
  "truncated_to_minute now (get_current_timestamp now)
   \<and> (\<exists>new. rows (df (snd (add_price_record w symbol s))) = rows (df s) @ new
       \<and> (\<forall>r \<in> set new. whole_minute (timestamp r)
             \<and> truncated_to_minute (datetime_now w (Suc (length (client_calls s))))
                  (timestamp r)))
   \<and> (\<exists>new. rows (df (snd (add_multiple_prices w symbols s))) = rows (df s) @ new
       \<and> (\<forall>r \<in> set new. whole_minute (timestamp r)
             \<and> (\<exists>k. length (client_calls s) < k
                   \<and> truncated_to_minute (datetime_now w k) (timestamp r))))
   \<and> ((\<forall>r \<in> set (rows (df s)). whole_minute (timestamp r)) \<longrightarrow>
        (\<forall>r \<in> set (rows (df (snd (add_price_record w symbol s)))). whole_minute (timestamp r))
        \<and> (\<forall>r \<in> set (rows (df (snd (add_multiple_prices w symbols s)))).
              whole_minute (timestamp r)))
   \<and> rows (df init) = []"
proof -
  have trunc: "truncated_to_minute now (get_current_timestamp now)"
    by (rule get_current_timestamp_truncates)
  have one: "\<exists>new. rows (df (snd (add_price_record w symbol s))) = rows (df s) @ new
       \<and> (\<forall>r \<in> set new. whole_minute (timestamp r)
             \<and> truncated_to_minute (datetime_now w (Suc (length (client_calls s))))
                  (timestamp r))"
    using add_price_record_rows [of w symbol s] truncated_whole_minute by blast
  have "\<exists>new. rows (df (snd (add_prices_loop w
            (case symbols of None \<Rightarrow> map fst COIN_MAPPINGS | Some l \<Rightarrow> l) 0 s)))
          = rows (df s) @ new
       \<and> (\<forall>r \<in> set new. whole_minute (timestamp r)
             \<and> (\<exists>k. length (client_calls s) < k
                   \<and> truncated_to_minute (datetime_now w k) (timestamp r)))"
    using add_prices_loop_rows
      [of w "case symbols of None \<Rightarrow> map fst COIN_MAPPINGS | Some l \<Rightarrow> l" 0 s]
      truncated_whole_minute by blast
  then have many: "\<exists>new. rows (df (snd (add_multiple_prices w symbols s))) = rows (df s) @ new
       \<and> (\<forall>r \<in> set new. whole_minute (timestamp r)
             \<and> (\<exists>k. length (client_calls s) < k
                   \<and> truncated_to_minute (datetime_now w k) (timestamp r)))"
    by (simp add: add_multiple_prices_def)
  have inv: "(\<forall>r \<in> set (rows (df s)). whole_minute (timestamp r)) \<longrightarrow>
        (\<forall>r \<in> set (rows (df (snd (add_price_record w symbol s)))). whole_minute (timestamp r))
        \<and> (\<forall>r \<in> set (rows (df (snd (add_multiple_prices w symbols s)))).
              whole_minute (timestamp r))"
    using one many by auto
  have start: "rows (df init) = []"
    by (simp add: init_def DataFrame_new_def)
  from trunc one many inv start show ?thesis
    by (intro conjI)
qed

theorem appended_timestamps_whole_minute_witness:
  "list_all (\<lambda>r. whole_minute (timestamp r))
     (rows (df (snd (add_multiple_prices sample_world None init))))
   \<and> map timestamp (rows (df (snd (add_multiple_prices sample_world None init))))
       = [sample_minute, sample_minute]
   \<and> datetime_now sample_world 1
       = \<lparr>year = 2025, month = 3, day = 14, hour = 9, minute = 26,
          second = 51, microsecond = 589793\<rparr>
   \<and> get_current_timestamp (datetime_now sample_world 1) = sample_minute"
proof -
  have start: "\<forall>r \<in> set (rows (df init)). whole_minute (timestamp r)"
    by (simp add: init_def DataFrame_new_def)
  from appended_timestamps_whole_minute [of _ sample_world "''BTCUSDT''" init None] start
  have "\<forall>r \<in> set (rows (df (snd (add_multiple_prices sample_world None init)))).
          whole_minute (timestamp r)"
    by blast
  then have all: "list_all (\<lambda>r. whole_minute (timestamp r))
     (rows (df (snd (add_multiple_prices sample_world None init))))"
    by (simp add: list_all_iff)
  have stamps: "map timestamp (rows (df (snd (add_multiple_prices sample_world None init))))
       = [sample_minute, sample_minute]"
    by (simp add: add_multiple_prices_def COIN_MAPPINGS_def add_price_record_def
        get_ticker_price_def sample_world_def init_def DataFrame_new_def concat_df_def
        get_current_timestamp_def sample_now_def sample_minute_def)
  have clock: "datetime_now sample_world 1
       = \<lparr>year = 2025, month = 3, day = 14, hour = 9, minute = 26,
          second = 51, microsecond = 589793\<rparr>"
    "get_current_timestamp (datetime_now sample_world 1) = sample_minute"
    by (simp_all add: sample_world_def sample_now_def sample_minute_def
        get_current_timestamp_def)
  from all stamps clock show ?thesis
    by (intro conjI)
qed

lemma add_prices_loop_configured:
  assumes "set symbols \<subseteq> fst ` set COIN_MAPPINGS"
  shows "fst (add_prices_loop w symbols c s)
           = c + length (filter (\<lambda>p. \<not> fetch_fails w p) (enumerate (length (client_calls s)) symbols))
       \<and> rows (df (snd (add_prices_loop w symbols c s)))
           = rows (df s) @ map (fetched_row w)
               (filter (\<lambda>p. \<not> fetch_fails w p) (enumerate (length (client_calls s)) symbols))
       \<and> client_calls (snd (add_prices_loop w symbols c s)) = client_calls s @ symbols"
  using assms
proof (induction symbols arbitrary: c s)
  case Nil
  then show ?case by simp
next
  case (Cons symbol symbols)
  from Cons.prems obtain name where name: "map_of COIN_MAPPINGS symbol = Some name"
    by (cases "map_of COIN_MAPPINGS symbol") (auto simp: map_of_eq_None_iff)
  from Cons.prems have rest: "set symbols \<subseteq> fst ` set COIN_MAPPINGS" by simp
  show ?case
  proof (cases "ticker_price w (length (client_calls s)) symbol")
    case (Inl e)
    then show ?thesis
      using Cons.IH [OF rest] name
      by (simp add: add_price_record_configured fetch_fails_def)
  next
    case (Inr price)
    then show ?thesis
      using Cons.IH [OF rest] name
      by (simp add: add_price_record_configured fetch_fails_def fetched_row_def rows_concat_df)
  qed
qed

lemma filter_singleton_compl:
  assumes "distinct xs" and "filter P xs = [a]"
  shows "filter (\<lambda>x. \<not> P x) xs = filter (\<lambda>x. x \<noteq> a) xs"
proof (rule filter_cong [OF refl])
  fix x assume x: "x \<in> set xs"
  have "set (filter P xs) = {a}" using assms(2) by simp
  then have "{y \<in> set xs. P y} = {a}" by simp
  with x show "(\<not> P x) = (x \<noteq> a)" by blast
qed

lemma COIN_MAPPINGS_inj:
  assumes "a \<in> fst ` set COIN_MAPPINGS" and "b \<in> fst ` set COIN_MAPPINGS"
    and "the (map_of COIN_MAPPINGS a) = the (map_of COIN_MAPPINGS b)"
  shows "a = b"
  using assms by (auto simp: COIN_MAPPINGS_def)

text \<open>
  C9 as stated fails for a list that names a symbol twice. On the list \<open>BTCUSDT\<close>,
  \<open>BTCUSDT\<close>, with the first request failing and the second succeeding, exactly one fetch
  fails and the count is \<open>N - 1 = 1\<close>, but the asset whose fetch failed is in the table.
\<close>

theorem repeated_symbol_counterexample:
  "''BTCUSDT'' \<in> fst ` set COIN_MAPPINGS
   \<and> filter (fetch_fails flaky_world) (enumerate 0 [''BTCUSDT'', ''BTCUSDT''])
       = [(0, ''BTCUSDT'')]
   \<and> rows (df init) = []
   \<and> fst (add_multiple_prices flaky_world (Some [''BTCUSDT'', ''BTCUSDT'']) init) = 1
   \<and> map pm (rows (df (snd (add_multiple_prices flaky_world
                               (Some [''BTCUSDT'', ''BTCUSDT'']) init))))
       = [''benchmark_btc'']
   \<and> the (map_of COIN_MAPPINGS ''BTCUSDT'')
       \<in> pm ` set (rows (df (snd (add_multiple_prices flaky_world
                                     (Some [''BTCUSDT'', ''BTCUSDT'']) init))))"
  by (simp add: add_multiple_prices_def COIN_MAPPINGS_def add_price_record_def
      get_ticker_price_def flaky_world_def init_def DataFrame_new_def concat_df_def
      fetch_fails_def)

text \<open>
  C9, amended. When every symbol of the list is configured and exactly one request fails
  (request number \<open>j\<close>, for the symbol \<open>failed\<close>), \<open>add_multiple_prices\<close> returns the count
  \<open>N - 1\<close>, appends the \<open>N - 1\<close> records of the other symbols in the order of the list, and
  has sent all \<open>N\<close> requests; when the symbols of the list are distinct and the table had
  no record of the failed asset, it still has none.
\<close>

theorem one_failed_fetch_is_skipped:
  assumes symbols: "symbols = (case opt of None \<Rightarrow> map fst COIN_MAPPINGS | Some l \<Rightarrow> l)"
    and configured: "set symbols \<subseteq> fst ` set COIN_MAPPINGS"
    and one: "filter (fetch_fails w) (enumerate (length (client_calls s)) symbols) = [(j, failed)]"
  shows "fst (add_multiple_prices w opt s) = length symbols - 1
     \<and> rows (df (snd (add_multiple_prices w opt s)))
         = rows (df s) @ map (fetched_row w)
             (filter (\<lambda>p. p \<noteq> (j, failed)) (enumerate (length (client_calls s)) symbols))
     \<and> length (rows (df (snd (add_multiple_prices w opt s))))
         = length (rows (df s)) + (length symbols - 1)
     \<and> client_calls (snd (add_multiple_prices w opt s)) = client_calls s @ symbols
     \<and> (distinct symbols \<and> the (map_of COIN_MAPPINGS failed) \<notin> pm ` set (rows (df s))
          \<longrightarrow> the (map_of COIN_MAPPINGS failed)
                \<notin> pm ` set (rows (df (snd (add_multiple_prices w opt s)))))"
proof -
  let ?n = "length (client_calls s)"
  let ?en = "enumerate ?n symbols"
  let ?ok = "filter (\<lambda>p. \<not> fetch_fails w p) ?en"
  have run: "add_multiple_prices w opt s = add_prices_loop w symbols 0 s"
    by (simp add: add_multiple_prices_def symbols)
  note loop = add_prices_loop_configured [OF configured, of w 0 s]
  have ok: "?ok = filter (\<lambda>p. p \<noteq> (j, failed)) ?en"
    by (rule filter_singleton_compl [OF distinct_enumerate one])
  have "length (filter (fetch_fails w) ?en) + length ?ok = length ?en"
    by (rule sum_length_filter_compl)
  with one have len: "length ?ok = length symbols - 1" by simp
  have absent: "the (map_of COIN_MAPPINGS failed)
                \<notin> pm ` set (rows (df (snd (add_multiple_prices w opt s))))"
    if d: "distinct symbols"
      and before: "the (map_of COIN_MAPPINGS failed) \<notin> pm ` set (rows (df s))"
  proof -
    have "(j, failed) \<in> set (filter (fetch_fails w) ?en)" using one by simp
    then have jf: "?n \<le> j" "j < ?n + length symbols" "symbols ! (j - ?n) = failed"
      by (auto simp: in_set_enumerate_eq)
    have ne: "pm (fetched_row w p) \<noteq> the (map_of COIN_MAPPINGS failed)" if p: "p \<in> set ?ok" for p
    proof -
      obtain k symbol where ks: "p = (k, symbol)" by (cases p)
      from p ks ok have neq: "(k, symbol) \<noteq> (j, failed)"
        and kin: "?n \<le> k" "k < ?n + length symbols" "symbols ! (k - ?n) = symbol"
        by (auto simp: in_set_enumerate_eq)
      have "symbol \<noteq> failed"
      proof
        assume "symbol = failed"
        with kin jf have "symbols ! (k - ?n) = symbols ! (j - ?n)" by simp
        moreover have "k - ?n < length symbols" "j - ?n < length symbols"
          using kin jf by auto
        ultimately have "k - ?n = j - ?n"
          using d by (simp add: nth_eq_iff_index_eq)
        with kin jf have "k = j" by simp
        with \<open>symbol = failed\<close> neq show False by simp
      qed
      moreover have "symbol \<in> fst ` set COIN_MAPPINGS" "failed \<in> fst ` set COIN_MAPPINGS"
        using kin jf configured by (auto simp: subset_iff)
      ultimately have "the (map_of COIN_MAPPINGS symbol) \<noteq> the (map_of COIN_MAPPINGS failed)"
        using COIN_MAPPINGS_inj by blast
      then show ?thesis by (simp add: ks fetched_row_def)
    qed
    have "the (map_of COIN_MAPPINGS failed) \<notin> pm ` set (map (fetched_row w) ?ok)"
    proof
      assume "the (map_of COIN_MAPPINGS failed) \<in> pm ` set (map (fetched_row w) ?ok)"
      then obtain p where "p \<in> set ?ok" "pm (fetched_row w p) = the (map_of COIN_MAPPINGS failed)"
        by (auto simp: image_iff)
      with ne show False by blast
    qed
    with before show ?thesis
      unfolding run using loop by auto
  qed
  from loop len ok absent show ?thesis
    unfolding run by simp
qed

theorem one_failed_fetch_is_skipped_witness:
  "filter (fetch_fails sample_world) (enumerate 0 (map fst COIN_MAPPINGS)) = [(1, ''ETHUSDT'')]
   \<and> fst (add_multiple_prices sample_world None init) = 2
   \<and> map pm (rows (df (snd (add_multiple_prices sample_world None init))))
       = [''benchmark_btc'', ''benchmark_sol'']
   \<and> map balance (rows (df (snd (add_multiple_prices sample_world None init)))) = [100, 102]
   \<and> client_calls (snd (add_multiple_prices sample_world None init))
       = [''BTCUSDT'', ''ETHUSDT'', ''SOLUSDT'']
   \<and> ''benchmark_eth'' \<notin> pm ` set (rows (df (snd (add_multiple_prices sample_world None init))))"
proof -
  let ?symbols = "map fst COIN_MAPPINGS"
  have syms: "?symbols = [''BTCUSDT'', ''ETHUSDT'', ''SOLUSDT'']"
    by (simp add: COIN_MAPPINGS_def)
  have h1: "?symbols = (case None of None \<Rightarrow> map fst COIN_MAPPINGS | Some l \<Rightarrow> l)"
    by simp
  have h2: "set ?symbols \<subseteq> fst ` set COIN_MAPPINGS"
    by simp
  have h3: "filter (fetch_fails sample_world) (enumerate (length (client_calls init)) ?symbols)
      = [(1, ''ETHUSDT'')]"
    unfolding syms by (simp add: init_def fetch_fails_def sample_world_def)
  have d: "distinct ?symbols"
    unfolding syms by simp
  have eth: "the (map_of COIN_MAPPINGS ''ETHUSDT'') = ''benchmark_eth''"
    by (simp add: COIN_MAPPINGS_def)
  have before: "the (map_of COIN_MAPPINGS ''ETHUSDT'') \<notin> pm ` set (rows (df init))"
    by (simp add: init_def DataFrame_new_def)
  note main = one_failed_fetch_is_skipped [OF h1 h2 h3]
  from main have count: "fst (add_multiple_prices sample_world None init) = 2"
    unfolding syms by simp
  from main have rws: "rows (df (snd (add_multiple_prices sample_world None init)))
      = map (fetched_row sample_world) [(0, ''BTCUSDT''), (Suc (Suc 0), ''SOLUSDT'')]"
    unfolding syms by (simp add: init_def DataFrame_new_def)
  from main have calls: "client_calls (snd (add_multiple_prices sample_world None init))
      = [''BTCUSDT'', ''ETHUSDT'', ''SOLUSDT'']"
    unfolding syms by (simp add: init_def)
  from main d before have "the (map_of COIN_MAPPINGS ''ETHUSDT'')
      \<notin> pm ` set (rows (df (snd (add_multiple_prices sample_world None init))))"
    by blast
  then have absent:
    "''benchmark_eth'' \<notin> pm ` set (rows (df (snd (add_multiple_prices sample_world None init))))"
    unfolding eth .
  have names: "map pm (map (fetched_row sample_world) [(0, ''BTCUSDT''), (Suc (Suc 0), ''SOLUSDT'')])
      = [''benchmark_btc'', ''benchmark_sol'']"
    by (simp add: fetched_row_def COIN_MAPPINGS_def)
  have prices: "map balance (map (fetched_row sample_world) [(0, ''BTCUSDT''), (Suc (Suc 0), ''SOLUSDT'')])
      = [100, 102]"
    by (simp add: fetched_row_def sample_world_def)
  from h3 have h3': "filter (fetch_fails sample_world) (enumerate 0 ?symbols) = [(1, ''ETHUSDT'')]"
    by (simp add: init_def)
  from h3' count rws calls absent names prices show ?thesis
    by simp
qed

section \<open>The store adapter\<close>

text \<open>
  C7 as stated fails. Each writer calls \<open>create_engine(connection_string)\<close> before it
  tests \<open>df.empty\<close>; with a connection string that cannot be parsed the call raises, and
  the exception reaches the caller although the frame is empty.
\<close>

theorem empty_frame_write_raises_counterexample:
  "empty_df (DataFrame_new [''timestamp'', ''pm'', ''balance'', ''shares'', ''nav''] :: nav_row DataFrame)
   \<and> df_to_table unparsable_store ''nav_table''
        (DataFrame_new [''timestamp'', ''pm'', ''balance'', ''shares'', ''nav'']) sample_db
       = (sample_db, Some (Exception ''Could not parse SQLAlchemy URL''))
   \<and> df_replace_table unparsable_store ''nav_table''
        (DataFrame_new [''timestamp'', ''pm'', ''balance'', ''shares'', ''nav'']) sample_db
       = (sample_db, Some (Exception ''Could not parse SQLAlchemy URL''))"
  by (simp add: df_to_table_def df_replace_table_def unparsable_store_def empty_df_def
      DataFrame_new_def)

text \<open>
  C7, amended. Given an empty frame, \<open>df_to_table\<close> and \<open>df_replace_table\<close> issue no
  \<open>to_sql\<close> call and leave every table as it was; when the engine can be built from the
  connection string they also raise nothing and return at once.
\<close>

theorem empty_frame_writes_nothing:
  assumes "empty_df d"
  shows "fst (df_to_table st table_name d b) = b
     \<and> fst (df_replace_table st table_name d b) = b
     \<and> (create_engine st = None \<longrightarrow>
          df_to_table st table_name d b = (b, None)
          \<and> df_replace_table st table_name d b = (b, None))"
  using assms
  by (simp add: df_to_table_def df_replace_table_def split: option.splits)

theorem empty_frame_writes_nothing_witness:
  "empty_df (DataFrame_new [''timestamp'', ''pm'', ''balance'', ''shares'', ''nav''] :: nav_row DataFrame)
   \<and> create_engine failing_store = None
   \<and> df_to_table failing_store ''nav_table''
        (DataFrame_new [''timestamp'', ''pm'', ''balance'', ''shares'', ''nav'']) sample_db
       = (sample_db, None)
   \<and> df_replace_table failing_store ''nav_table''
        (DataFrame_new [''timestamp'', ''pm'', ''balance'', ''shares'', ''nav'']) sample_db
       = (sample_db, None)
   \<and> fst (df_to_table unparsable_store ''nav_table''
        (DataFrame_new [''timestamp'', ''pm'', ''balance'', ''shares'', ''nav'']) sample_db)
       = sample_db
   \<and> to_sql_calls sample_db = []
   \<and> tables sample_db ''nav_table'' = Some [old_nav_row]"
proof -
  let ?d = "DataFrame_new [''timestamp'', ''pm'', ''balance'', ''shares'', ''nav''] :: nav_row DataFrame"
  have h: "empty_df ?d"
    by (simp add: empty_df_def DataFrame_new_def)
  have engine: "create_engine failing_store = None"
    by (simp add: failing_store_def)
  have state: "to_sql_calls sample_db = []" "tables sample_db ''nav_table'' = Some [old_nav_row]"
    by (simp_all add: sample_db_def)
  from empty_frame_writes_nothing [OF h, of failing_store "''nav_table''" sample_db] engine
  have ok: "df_to_table failing_store ''nav_table'' ?d sample_db = (sample_db, None)"
    "df_replace_table failing_store ''nav_table'' ?d sample_db = (sample_db, None)"
    by blast+
  from empty_frame_writes_nothing [OF h, of unparsable_store "''nav_table''" sample_db]
  have same: "fst (df_to_table unparsable_store ''nav_table'' ?d sample_db) = sample_db"
    by blast
  from h engine ok same state show ?thesis
    by (intro conjI)
qed

text \<open>
  C8 as stated fails. \<open>get_db_table\<close> calls \<open>create_engine(connection_string)\<close> before its
  \<open>try\<close> block; with a connection string that cannot be parsed the call raises and the
  caller receives the exception, not a frame.
\<close>

theorem get_db_table_raises_counterexample:
  "get_db_table unparsable_store ''select * from shares_table;''
     = Inl (Exception ''Could not parse SQLAlchemy URL'')
   \<and> \<not> (\<exists>d printed. get_db_table unparsable_store ''select * from shares_table;''
                        = Inr (d, printed))"
  by (simp add: get_db_table_def unparsable_store_def)

text \<open>
  C8, amended. When the engine can be built from the connection string, \<open>get_db_table\<close>
  always returns a frame: the one that was read, or, when the read raised, the empty frame
  \<open>pd.DataFrame()\<close> after printing one line.
\<close>

theorem get_db_table_never_raises:
  assumes "create_engine st = None"
  shows "\<exists>d printed. get_db_table st query = Inr (d, printed)
      \<and> (case read_sql st query of
            Inr r \<Rightarrow> d = r \<and> printed = []
          | Inl e \<Rightarrow> d = DataFrame_new [] \<and> empty_df d \<and> length printed = 1)"
  using assms
  by (cases "read_sql st query")
    (simp_all add: get_db_table_def empty_df_def DataFrame_new_def)

theorem get_db_table_never_raises_witness:
  "create_engine failing_store = None
   \<and> read_sql failing_store ''select * from shares_table;''
       = Inl (Exception ''connection refused'')
   \<and> (\<exists>d printed. get_db_table failing_store ''select * from shares_table;'' = Inr (d, printed)
         \<and> d = DataFrame_new [] \<and> length printed = 1)
   \<and> get_db_table sample_store ''select * from shares_table;''
       = Inr (\<lparr>columns = [''timestamp'', ''pm'', ''shares''], rows = sample_shares\<rparr>, [])"
proof -
  have engine: "create_engine failing_store = None"
    by (simp add: failing_store_def)
  have rd: "read_sql failing_store ''select * from shares_table;''
       = Inl (Exception ''connection refused'')"
    by (simp add: failing_store_def)
  from get_db_table_never_raises [OF engine, of "''select * from shares_table;''"]
  obtain d printed where
    got: "get_db_table failing_store ''select * from shares_table;'' = Inr (d, printed)"
    and shape: "case read_sql failing_store ''select * from shares_table;'' of
            Inr r \<Rightarrow> d = r \<and> printed = []
          | Inl e \<Rightarrow> d = DataFrame_new [] \<and> empty_df d \<and> length printed = 1"
    by blast
  from shape have d: "d = DataFrame_new []" and p: "length printed = 1"
    unfolding rd by simp_all
  have failed: "\<exists>d printed. get_db_table failing_store ''select * from shares_table;''
         = Inr (d, printed) \<and> d = DataFrame_new [] \<and> length printed = 1"
    by (intro exI [where x = d] exI [where x = printed] conjI) (rule got d p)+
  have good: "get_db_table sample_store ''select * from shares_table;''
       = Inr (\<lparr>columns = [''timestamp'', ''pm'', ''shares''], rows = sample_shares\<rparr>, [])"
    by (simp add: get_db_table_def sample_store_def)
  from engine rd failed good show ?thesis
    by (intro conjI)
qed

section \<open>The latest-shares projection\<close>

lemma drop_duplicates_from_subset: "set (drop_duplicates_from key seen rs) \<subseteq> set rs"
  by (induction rs arbitrary: seen) auto

lemma drop_duplicates_from_keys:
  "key ` set (drop_duplicates_from key seen rs) = key ` set rs - set seen"
  by (induction rs arbitrary: seen) auto

lemma drop_duplicates_from_distinct: "distinct (map key (drop_duplicates_from key seen rs))"
proof (induction rs arbitrary: seen)
  case Nil
  then show ?case by simp
next
  case (Cons r rs)
  have "key r \<notin> key ` set (drop_duplicates_from key (key r # seen) rs)"
    by (simp add: drop_duplicates_from_keys)
  with Cons show ?case by simp
qed

text \<open>A row that is kept is the first of its key.\<close>

lemma drop_duplicates_from_first:
  "r \<in> set (drop_duplicates_from key seen rs) \<Longrightarrow>
     \<exists>as bs. rs = as @ r # bs \<and> key r \<notin> key ` set as"
proof (induction rs arbitrary: seen)
  case Nil
  then show ?case by simp
next
  case (Cons a rs)
  show ?case
  proof (cases "key a \<in> set seen")
    case True
    with Cons.prems have "r \<in> set (drop_duplicates_from key seen rs)" by simp
    moreover from this have "key r \<notin> set seen"
      using drop_duplicates_from_keys [of key seen rs] by blast
    ultimately obtain as bs where "rs = as @ r # bs" "key r \<notin> key ` set as"
      using Cons.IH by blast
    moreover have "key r \<noteq> key a" using True \<open>key r \<notin> set seen\<close> by auto
    ultimately have "a # rs = (a # as) @ r # bs \<and> key r \<notin> key ` set (a # as)" by auto
    then show ?thesis by blast
  next
    case False
    with Cons.prems consider "r = a" | "r \<in> set (drop_duplicates_from key (key a # seen) rs)"
      by auto
    then show ?thesis
    proof cases
      case 1
      then have "a # rs = [] @ r # rs \<and> key r \<notin> key ` set []" by simp
      then show ?thesis by blast
    next
      case 2
      then have "key r \<noteq> key a"
        using drop_duplicates_from_keys [of key "key a # seen" rs] by auto
      moreover from 2 obtain as bs where "rs = as @ r # bs" "key r \<notin> key ` set as"
        using Cons.IH by blast
      ultimately have "a # rs = (a # as) @ r # bs \<and> key r \<notin> key ` set (a # as)" by auto
      then show ?thesis by blast
    qed
  qed
qed

lemma latest_shares_distinct: "distinct (map share_row.pm (latest_shares_of srt xs))"
  by (simp add: latest_shares_of_def drop_duplicates_def drop_duplicates_from_distinct)

lemma latest_shares_props:
  fixes xs :: "('t::linorder) share_row list"
  assumes srt: "is_sort_values srt xs"
  shows "set (map share_row.pm (latest_shares_of srt xs)) = set (map share_row.pm xs)"
    and "set (latest_shares_of srt xs) \<subseteq> set xs"
proof -
  from srt have perm: "set (srt xs) = set xs"
    by (auto simp: is_sort_values_def dest: mset_eq_setD)
  show "set (map share_row.pm (latest_shares_of srt xs)) = set (map share_row.pm xs)"
    using drop_duplicates_from_keys [of share_row.pm "[]" "srt xs"] perm
    by (simp add: latest_shares_of_def drop_duplicates_def)
  show "set (latest_shares_of srt xs) \<subseteq> set xs"
    using drop_duplicates_from_subset [of share_row.pm "[]" "srt xs"] perm
    by (simp add: latest_shares_of_def drop_duplicates_def)
qed

lemma latest_is_max:
  fixes xs :: "('t::linorder) share_row list"
  assumes srt: "is_sort_values srt xs"
    and r: "r \<in> set (latest_shares_of srt xs)"
    and x: "x \<in> set xs" "share_row.pm x = share_row.pm r"
  shows "share_row.timestamp x \<le> share_row.timestamp r"
proof -
  from srt have perm: "set (srt xs) = set xs"
    and sorted: "sorted_wrt (\<lambda>a b. share_row.timestamp b \<le> share_row.timestamp a) (srt xs)"
    by (auto simp: is_sort_values_def dest: mset_eq_setD)
  from r have "r \<in> set (drop_duplicates_from share_row.pm [] (srt xs))"
    by (simp add: latest_shares_of_def drop_duplicates_def)
  from drop_duplicates_from_first [OF this] obtain as bs where split: "srt xs = as @ r # bs"
    and first: "share_row.pm r \<notin> share_row.pm ` set as"
    by blast
  from x perm split have "x \<in> set as \<or> x = r \<or> x \<in> set bs" by auto
  moreover from first x(2) have "x \<notin> set as" by (metis imageI)
  moreover have "x \<in> set bs \<Longrightarrow> share_row.timestamp x \<le> share_row.timestamp r"
    using sorted split by (auto simp: sorted_wrt_append)
  ultimately show ?thesis by auto
qed

lemma sort_values_stable_sorts:
  "is_sort_values sort_values_stable (xs :: ('t::linorder) share_row list)"
proof -
  have "sorted (map share_row.timestamp (sort_key share_row.timestamp (rev xs)))"
    by simp
  then have "sorted_wrt (\<lambda>a b. share_row.timestamp a \<le> share_row.timestamp b)
      (sort_key share_row.timestamp (rev xs))"
    by (simp add: sorted_map)
  then have "sorted_wrt (\<lambda>a b. share_row.timestamp b \<le> share_row.timestamp a)
      (rev (sort_key share_row.timestamp (rev xs)))"
    by (simp add: sorted_wrt_rev)
  then show ?thesis
    by (simp add: is_sort_values_def sort_values_stable_def)
qed

lemma latest_sample_shares:
  "latest_shares_of sort_values_stable sample_shares = [sample_shares ! 3, sample_shares ! 2]"
  by (simp add: latest_shares_of_def drop_duplicates_def sort_values_stable_def sample_shares_def)

text \<open>
  C4. Whatever order the sort gives to rows of equal timestamp, the projection
  \<open>latest_shares\<close> has exactly one row for each asset of the shares table, that row is a
  row of the table, and its timestamp is the greatest timestamp of the asset's rows; a row
  whose timestamp is strictly greater than that of every other row of its asset is the one
  selected.
\<close>

theorem latest_shares_max_timestamp:
  fixes xs :: "('t::linorder) share_row list"
  assumes srt: "is_sort_values srt xs"
  shows "distinct (map share_row.pm (latest_shares_of srt xs))
     \<and> set (map share_row.pm (latest_shares_of srt xs)) = set (map share_row.pm xs)
     \<and> set (latest_shares_of srt xs) \<subseteq> set xs
     \<and> (\<forall>r \<in> set (latest_shares_of srt xs).
          share_row.timestamp r
            = Max (share_row.timestamp ` {x \<in> set xs. share_row.pm x = share_row.pm r}))
     \<and> (\<forall>x \<in> set xs.
          (\<forall>y \<in> set xs. share_row.pm y = share_row.pm x \<and> y \<noteq> x
              \<longrightarrow> share_row.timestamp y < share_row.timestamp x)
          \<longrightarrow> x \<in> set (latest_shares_of srt xs))"
proof (intro conjI ballI impI)
  show "distinct (map share_row.pm (latest_shares_of srt xs))"
    by (rule latest_shares_distinct)
  show "set (map share_row.pm (latest_shares_of srt xs)) = set (map share_row.pm xs)"
    using latest_shares_props(1) [OF srt] .
  show "set (latest_shares_of srt xs) \<subseteq> set xs"
    using latest_shares_props(2) [OF srt] .
next
  fix r assume r: "r \<in> set (latest_shares_of srt xs)"
  let ?S = "share_row.timestamp ` {x \<in> set xs. share_row.pm x = share_row.pm r}"
  have "r \<in> set xs" using r latest_shares_props(2) [OF srt] by blast
  then have "share_row.timestamp r \<in> ?S" by blast
  moreover have "\<forall>t \<in> ?S. t \<le> share_row.timestamp r"
    using latest_is_max [OF srt r] by blast
  moreover have "finite ?S" by simp
  ultimately have "Max ?S = share_row.timestamp r"
    by (intro Max_eqI) blast+
  then show "share_row.timestamp r = Max ?S" by simp
next
  fix x assume x: "x \<in> set xs"
    and uniq: "\<forall>y \<in> set xs. share_row.pm y = share_row.pm x \<and> y \<noteq> x
              \<longrightarrow> share_row.timestamp y < share_row.timestamp x"
  from x have "share_row.pm x \<in> set (map share_row.pm (latest_shares_of srt xs))"
    using latest_shares_props(1) [OF srt] by simp
  then obtain r where r: "r \<in> set (latest_shares_of srt xs)" "share_row.pm r = share_row.pm x"
    by auto
  have le: "share_row.timestamp x \<le> share_row.timestamp r"
    using latest_is_max [OF srt r(1) x] r(2) by simp
  have "r \<in> set xs" using r(1) latest_shares_props(2) [OF srt] by blast
  have "r = x"
  proof (rule ccontr)
    assume "r \<noteq> x"
    with uniq \<open>r \<in> set xs\<close> r(2) have "share_row.timestamp r < share_row.timestamp x"
      by blast
    with le show False by simp
  qed
  with r(1) show "x \<in> set (latest_shares_of srt xs)" by simp
qed

theorem latest_shares_max_timestamp_witness:
  "is_sort_values sort_values_stable sample_shares
   \<and> latest_shares_of sort_values_stable sample_shares
       = [\<lparr>share_row.timestamp = 3, share_row.pm = ''benchmark_eth'', share_row.shares = Some 0\<rparr>,
          \<lparr>share_row.timestamp = 2, share_row.pm = ''benchmark_btc'', share_row.shares = Some 50\<rparr>]
   \<and> distinct (map share_row.pm (latest_shares_of sort_values_stable sample_shares))
   \<and> sample_shares ! 2 \<in> set (latest_shares_of sort_values_stable sample_shares)
   \<and> share_row.timestamp (sample_shares ! 2)
       = Max (share_row.timestamp ` {x \<in> set sample_shares. share_row.pm x = ''benchmark_btc''})"
proof -
  have h: "is_sort_values sort_values_stable sample_shares"
    by (rule sort_values_stable_sorts)
  note main = latest_shares_max_timestamp [OF h]
  have latest: "latest_shares_of sort_values_stable sample_shares
       = [\<lparr>share_row.timestamp = 3, share_row.pm = ''benchmark_eth'', share_row.shares = Some 0\<rparr>,
          \<lparr>share_row.timestamp = 2, share_row.pm = ''benchmark_btc'', share_row.shares = Some 50\<rparr>]"
    unfolding latest_sample_shares by (simp add: sample_shares_def)
  from main have d: "distinct (map share_row.pm (latest_shares_of sort_values_stable sample_shares))"
    by blast
  have "sample_shares ! 2 \<in> set sample_shares"
    by (simp add: sample_shares_def)
  moreover have "\<forall>y \<in> set sample_shares.
      share_row.pm y = share_row.pm (sample_shares ! 2) \<and> y \<noteq> sample_shares ! 2
        \<longrightarrow> share_row.timestamp y < share_row.timestamp (sample_shares ! 2)"
    by (simp add: sample_shares_def)
  ultimately have sel: "sample_shares ! 2 \<in> set (latest_shares_of sort_values_stable sample_shares)"
    using main by blast
  with main have "share_row.timestamp (sample_shares ! 2)
       = Max (share_row.timestamp ` {x \<in> set sample_shares.
                share_row.pm x = share_row.pm (sample_shares ! 2)})"
    by blast
  moreover have "share_row.pm (sample_shares ! 2) = ''benchmark_btc''"
    by (simp add: sample_shares_def)
  ultimately have mx: "share_row.timestamp (sample_shares ! 2)
       = Max (share_row.timestamp ` {x \<in> set sample_shares. share_row.pm x = ''benchmark_btc''})"
    by simp
  from h latest d sel mx show ?thesis by blast
qed

section \<open>The NAV computation\<close>

lemma filter_distinct_key:
  "distinct (map key ys) \<Longrightarrow>
     filter (\<lambda>r. key r = k) ys = (case find (\<lambda>r. key r = k) ys of None \<Rightarrow> [] | Some r \<Rightarrow> [r])"
proof (induction ys)
  case Nil
  then show ?case by simp
next
  case (Cons y ys)
  show ?case
  proof (cases "key y = k")
    case True
    have "\<forall>r \<in> set ys. key r \<noteq> k"
    proof (intro ballI notI)
      fix r assume "r \<in> set ys" "key r = k"
      then have "k \<in> key ` set ys" by blast
      with True Cons.prems show False by simp
    qed
    then have "filter (\<lambda>r. key r = k) ys = []" by (simp add: filter_empty_conv)
    with True show ?thesis by simp
  next
    case False
    with Cons show ?thesis by simp
  qed
qed

lemma find_pm_shares:
  "find (\<lambda>r. fst r = k) (map (\<lambda>r. (share_row.pm r, share_row.shares r)) latest)
     = map_option (\<lambda>r. (share_row.pm r, share_row.shares r))
         (find (\<lambda>x. share_row.pm x = k) latest)"
  by (induction latest) auto

text \<open>With one right row per key at most, the left join is a map over the left rows.\<close>

lemma merge_left_distinct:
  assumes "distinct (map share_row.pm latest)"
  shows "merge_left left (map (\<lambda>r. (share_row.pm r, share_row.shares r)) latest)
           = map (\<lambda>l. with_shares l (joined_shares latest (pm l))) left"
proof -
  let ?right = "map (\<lambda>r. (share_row.pm r, share_row.shares r)) latest"
  have d: "distinct (map fst ?right)" using assms by (simp add: comp_def)
  have one: "(case filter (\<lambda>r. fst r = pm l) ?right of
                 [] \<Rightarrow> [with_shares l None]
               | ms \<Rightarrow> map (\<lambda>r. with_shares l (snd r)) ms)
             = [with_shares l (joined_shares latest (pm l))]" for l :: price_row
    by (simp add: filter_distinct_key [OF d] find_pm_shares joined_shares_def
        split: option.splits)
  show ?thesis
    unfolding merge_left_def by (induction left) (simp_all add: one)
qed

lemma nav_of_row_value: "nav_of_row row = Inr (nav_value (balance row) (shares row))"
  by (simp add: nav_of_row_def nav_value_def py_div_def split: option.splits)

lemma apply_nav_total:
  "apply_nav js = Inr (map (\<lambda>j. with_nav j (nav_value (balance j) (shares j))) js)"
  by (induction js) (simp_all add: nav_of_row_value)

lemma price_row_eta:
  "\<lparr>timestamp = timestamp x, pm = pm x, balance = balance x\<rparr> = (x :: price_row)"
  by (cases x) simp

lemma compute_nav_engine: "compute_nav st srt s = Inr result_df \<Longrightarrow> create_engine st = None"
  by (cases "create_engine st") (simp_all add: compute_nav_def get_db_table_def)

lemma compute_nav_value:
  assumes "create_engine st = None"
    and "read_sql st ''select * from shares_table;'' = Inr shares_df"
    and "''timestamp'' \<in> set (columns shares_df)"
    and "''pm'' \<in> set (columns shares_df)"
    and "''shares'' \<in> set (columns shares_df)"
  shows "compute_nav st srt s =
     Inr \<lparr>columns = columns (df s) @ [''shares'', ''nav''],
          rows = map (\<lambda>l. with_nav
                        (with_shares l (joined_shares (latest_shares_of srt (rows shares_df)) (pm l)))
                        (nav_value (balance l)
                           (joined_shares (latest_shares_of srt (rows shares_df)) (pm l))))
                     (rows (df s))\<rparr>"
  using assms
  by (simp add: compute_nav_def get_db_table_def getitem_def Let_def
      merge_left_distinct [OF latest_shares_distinct] apply_nav_total comp_def with_shares_def)

lemma latest_sample_shares_rows:
  "latest_shares_of sort_values_stable sample_shares
     = [\<lparr>share_row.timestamp = 3, share_row.pm = ''benchmark_eth'', share_row.shares = Some 0\<rparr>,
        \<lparr>share_row.timestamp = 2, share_row.pm = ''benchmark_btc'', share_row.shares = Some 50\<rparr>]"
  unfolding latest_sample_shares by (simp add: sample_shares_def)

lemma compute_nav_sample:
  "compute_nav sample_store sort_values_stable sample_cycle
     = Inr \<lparr>columns = [''timestamp'', ''pm'', ''balance'', ''shares'', ''nav''],
            rows = sample_nav_rows\<rparr>"
proof -
  let ?latest = "latest_shares_of sort_values_stable sample_shares"
  have engine: "create_engine sample_store = None"
    by (simp add: sample_store_def)
  have rd: "read_sql sample_store ''select * from shares_table;''
      = Inr \<lparr>columns = [''timestamp'', ''pm'', ''shares''], rows = sample_shares\<rparr>"
    by (simp add: sample_store_def)
  have "compute_nav sample_store sort_values_stable sample_cycle
      = Inr \<lparr>columns = columns (df sample_cycle) @ [''shares'', ''nav''],
             rows = map (\<lambda>l. with_nav (with_shares l (joined_shares ?latest (pm l)))
                                (nav_value (balance l) (joined_shares ?latest (pm l))))
                        (rows (df sample_cycle))\<rparr>"
    using compute_nav_value [OF engine rd, of sort_values_stable sample_cycle] by simp
  also have "\<dots> = Inr \<lparr>columns = [''timestamp'', ''pm'', ''balance'', ''shares'', ''nav''],
            rows = sample_nav_rows\<rparr>"
    unfolding latest_sample_shares_rows
    by (simp add: joined_shares_def nav_value_def with_nav_def with_shares_def
        sample_cycle_def sample_nav_rows_def)
  finally show ?thesis .
qed

text \<open>
  C1. When the engine was built and the shares table was read and has the columns \<open>timestamp\<close>, \<open>pm\<close> and
  \<open>shares\<close>, the computation returns a frame and raises nothing, in particular no
  \<open>ZeroDivisionError\<close>. The frame has the price rows in their order, each exactly once;
  each carries the \<open>shares\<close> of its asset's row in the latest-shares projection (null when
  the asset has no row there), and its \<open>nav\<close> is 0 when \<open>shares\<close> is null or zero and
  \<open>balance / shares\<close> otherwise.
\<close>

theorem compute_nav_left_join:
  assumes "create_engine st = None"
    and "read_sql st ''select * from shares_table;'' = Inr shares_df"
    and "''timestamp'' \<in> set (columns shares_df)"
    and "''pm'' \<in> set (columns shares_df)"
    and "''shares'' \<in> set (columns shares_df)"
  shows "\<exists>result_df. compute_nav st srt s = Inr result_df
     \<and> map price_row.truncate (rows result_df) = rows (df s)
     \<and> (\<forall>r \<in> set (rows result_df).
           shares r = joined_shares (latest_shares_of srt (rows shares_df)) (pm r)
           \<and> nav r = (case shares r of
                        None \<Rightarrow> 0
                      | Some v \<Rightarrow> if v = 0 then 0 else balance r / v))"
proof -
  note v = compute_nav_value [OF assms, of srt s]
  have "map price_row.truncate
      (map (\<lambda>l. with_nav
              (with_shares l (joined_shares (latest_shares_of srt (rows shares_df)) (pm l)))
              (nav_value (balance l)
                 (joined_shares (latest_shares_of srt (rows shares_df)) (pm l))))
         (rows (df s))) = rows (df s)"
    by (simp add: comp_def with_nav_def with_shares_def price_row.truncate_def price_row_eta)
  then show ?thesis
    unfolding v
    by (auto simp: with_nav_def with_shares_def nav_value_def split: option.splits)
qed

theorem compute_nav_left_join_witness:
  "create_engine sample_store = None
   \<and> read_sql sample_store ''select * from shares_table;''
     = Inr \<lparr>columns = [''timestamp'', ''pm'', ''shares''], rows = sample_shares\<rparr>
   \<and> (\<exists>result_df. compute_nav sample_store sort_values_stable sample_cycle = Inr result_df
        \<and> map price_row.truncate (rows result_df) = rows (df sample_cycle)
        \<and> map pm (rows result_df) = [''benchmark_btc'', ''benchmark_eth'', ''benchmark_sol'']
        \<and> map shares (rows result_df) = [Some 50, Some 0, None]
        \<and> map nav (rows result_df) = [2, 0, 0])"
proof -
  have h: "read_sql sample_store ''select * from shares_table;''
      = Inr \<lparr>columns = [''timestamp'', ''pm'', ''shares''], rows = sample_shares\<rparr>"
    by (simp add: sample_store_def)
  have h0: "create_engine sample_store = None"
    by (simp add: sample_store_def)
  from compute_nav_left_join [OF h0 h, of sort_values_stable sample_cycle]
  obtain result_df where r: "compute_nav sample_store sort_values_stable sample_cycle = Inr result_df"
    and once: "map price_row.truncate (rows result_df) = rows (df sample_cycle)"
    by auto
  from r have "result_df = \<lparr>columns = [''timestamp'', ''pm'', ''balance'', ''shares'', ''nav''],
            rows = sample_nav_rows\<rparr>"
    by (simp add: compute_nav_sample)
  then have vals: "map pm (rows result_df) = [''benchmark_btc'', ''benchmark_eth'', ''benchmark_sol'']"
    "map shares (rows result_df) = [Some 50, Some 0, None]"
    "map nav (rows result_df) = [2, 0, 0]"
    by (simp_all add: sample_nav_rows_def)
  have "\<exists>result_df. compute_nav sample_store sort_values_stable sample_cycle = Inr result_df
        \<and> map price_row.truncate (rows result_df) = rows (df sample_cycle)
        \<and> map pm (rows result_df) = [''benchmark_btc'', ''benchmark_eth'', ''benchmark_sol'']
        \<and> map shares (rows result_df) = [Some 50, Some 0, None]
        \<and> map nav (rows result_df) = [2, 0, 0]"
    by (intro exI [where x = result_df] conjI) (rule r once vals)+
  with h0 h show ?thesis by (intro conjI)
qed

section \<open>Persisting the NAV rows\<close>

text \<open>
  C2 as stated fails. \<open>update_nav\<close> writes with \<open>df_to_table\<close>, whose \<open>to_sql\<close> call has
  \<open>if_exists='append'\<close>: on a store whose \<open>nav_table\<close> holds a row of an earlier cycle, the
  table afterwards holds that row followed by the cycle's rows, not the cycle's rows alone.
\<close>

theorem update_nav_replace_all_counterexample:
  "compute_nav sample_store sort_values_stable sample_cycle
     = Inr \<lparr>columns = [''timestamp'', ''pm'', ''balance'', ''shares'', ''nav''],
            rows = sample_nav_rows\<rparr>
   \<and> tables sample_db ''nav_table'' = Some [old_nav_row]
   \<and> tables (fst (update_nav sample_store sort_values_stable sample_cycle sample_db)) ''nav_table''
       = Some (old_nav_row # sample_nav_rows)
   \<and> tables (fst (update_nav sample_store sort_values_stable sample_cycle sample_db)) ''nav_table''
       \<noteq> Some sample_nav_rows
   \<and> to_sql_calls (fst (update_nav sample_store sort_values_stable sample_cycle sample_db))
       = [(''nav_table'', if_exists_append)]"
proof -
  have err: "to_sql_error sample_store k = None" for k
    by (simp add: sample_store_def)
  have engine: "create_engine sample_store = None"
    by (simp add: sample_store_def)
  have run: "update_nav sample_store sort_values_stable sample_cycle sample_db
      = (\<lparr>tables = [''nav_table'' \<mapsto> old_nav_row # sample_nav_rows],
          to_sql_calls = [(''nav_table'', if_exists_append)]\<rparr>, None)"
    unfolding update_nav_def compute_nav_sample
    by (simp add: df_to_table_def empty_df_def to_sql_def err engine sample_db_def
        sample_nav_rows_def)
  have before: "tables sample_db ''nav_table'' = Some [old_nav_row]"
    by (simp add: sample_db_def)
  have differs: "old_nav_row # sample_nav_rows \<noteq> sample_nav_rows"
    by simp
  from compute_nav_sample before differs show ?thesis
    unfolding run by simp
qed

text \<open>
  C2, amended. The NAV frame is persisted in append mode: when the computation returns a
  non-empty frame and the \<open>to_sql\<close> call does not fail, \<open>update_nav\<close> issues exactly one
  \<open>to_sql\<close> call, on \<open>nav_table\<close> with \<open>if_exists='append'\<close>, after which \<open>nav_table\<close> holds
  its prior content followed by the computed rows and every other table is as it was.
\<close>

theorem update_nav_appends:
  assumes "compute_nav st srt s = Inr result_df"
    and "\<not> empty_df result_df"
    and "to_sql_error st (length (to_sql_calls b)) = None"
  shows "update_nav st srt s b =
     (b\<lparr>to_sql_calls := to_sql_calls b @ [(''nav_table'', if_exists_append)],
        tables := (tables b)(''nav_table'' \<mapsto>
          (case tables b ''nav_table'' of None \<Rightarrow> [] | Some old \<Rightarrow> old) @ rows result_df)\<rparr>,
      None)"
  using assms compute_nav_engine [OF assms(1)]
  by (simp add: update_nav_def df_to_table_def to_sql_def Let_def)

theorem update_nav_appends_witness:
  "compute_nav sample_store sort_values_stable sample_cycle
     = Inr \<lparr>columns = [''timestamp'', ''pm'', ''balance'', ''shares'', ''nav''],
            rows = sample_nav_rows\<rparr>
   \<and> to_sql_error sample_store (length (to_sql_calls sample_db)) = None
   \<and> update_nav sample_store sort_values_stable sample_cycle sample_db
       = (\<lparr>tables = [''nav_table'' \<mapsto> old_nav_row # sample_nav_rows],
           to_sql_calls = [(''nav_table'', if_exists_append)]\<rparr>, None)"
proof -
  let ?result = "\<lparr>columns = [''timestamp'', ''pm'', ''balance'', ''shares'', ''nav''],
            rows = sample_nav_rows\<rparr>"
  have h1: "compute_nav sample_store sort_values_stable sample_cycle = Inr ?result"
    by (rule compute_nav_sample)
  have h2: "\<not> empty_df ?result"
    by (simp add: empty_df_def sample_nav_rows_def)
  have h3: "to_sql_error sample_store (length (to_sql_calls sample_db)) = None"
    by (simp add: sample_store_def)
  from update_nav_appends [OF h1 h2 h3]
  have "update_nav sample_store sort_values_stable sample_cycle sample_db
       = (\<lparr>tables = [''nav_table'' \<mapsto> old_nav_row # sample_nav_rows],
           to_sql_calls = [(''nav_table'', if_exists_append)]\<rparr>, None)"
    by (simp add: sample_db_def)
  with h1 h3 show ?thesis by blast
qed

section \<open>A failed read of the shares table\<close>

text \<open>
  C3 as stated fails. When the read fails, \<open>get_db_table\<close> returns \<open>pd.DataFrame()\<close>, which
  has no column \<open>timestamp\<close>: line 210 raises \<open>KeyError\<close>, no NAV row is computed, and
  \<open>nav_table\<close> keeps its content.
\<close>

theorem update_nav_failed_read_counterexample:
  "read_sql failing_store ''select * from shares_table;'' = Inl (Exception ''connection refused'')
   \<and> rows (df sample_cycle) \<noteq> []
   \<and> compute_nav failing_store sort_values_stable sample_cycle = Inl (KeyError ''timestamp'')
   \<and> \<not> (\<exists>result_df. compute_nav failing_store sort_values_stable sample_cycle = Inr result_df)
   \<and> update_nav failing_store sort_values_stable sample_cycle sample_db = (sample_db, None)"
  by (simp add: update_nav_def compute_nav_def get_db_table_def getitem_def DataFrame_new_def
      failing_store_def sample_cycle_def)

text \<open>
  C3, amended. When the read of the shares table fails, the NAV computation ends with an
  exception and \<open>update_nav\<close> catches it: no exception escapes, no \<open>to_sql\<close> call is
  issued and the store is as it was. With the engine built, \<open>get_db_table\<close> has returned
  the empty frame without columns and the exception is the \<open>KeyError\<close> on the column
  \<open>timestamp\<close>.
\<close>

theorem update_nav_failed_read:
  assumes "read_sql st ''select * from shares_table;'' = Inl e"
  shows "update_nav st srt s b = (b, None)
     \<and> (\<exists>raised. compute_nav st srt s = Inl raised)
     \<and> (create_engine st = None \<longrightarrow>
          (\<exists>printed. get_db_table st ''select * from shares_table;''
             = Inr (DataFrame_new [], printed))
          \<and> compute_nav st srt s = Inl (KeyError ''timestamp''))"
  using assms
  by (cases "create_engine st")
    (simp_all add: update_nav_def compute_nav_def get_db_table_def getitem_def
      DataFrame_new_def)

theorem update_nav_failed_read_witness:
  "create_engine failing_store = None
   \<and> read_sql failing_store ''select * from shares_table;'' = Inl (Exception ''connection refused'')
   \<and> compute_nav failing_store sort_values_stable sample_cycle = Inl (KeyError ''timestamp'')
   \<and> update_nav failing_store sort_values_stable sample_cycle sample_db = (sample_db, None)
   \<and> tables sample_db ''nav_table'' = Some [old_nav_row]
   \<and> to_sql_calls sample_db = []"
proof -
  have h: "read_sql failing_store ''select * from shares_table;''
      = Inl (Exception ''connection refused'')"
    by (simp add: failing_store_def)
  have state: "tables sample_db ''nav_table'' = Some [old_nav_row]" "to_sql_calls sample_db = []"
    by (simp_all add: sample_db_def)
  have h0: "create_engine failing_store = None"
    by (simp add: failing_store_def)
  from update_nav_failed_read [OF h, of sort_values_stable sample_cycle sample_db] h0
  have run: "compute_nav failing_store sort_values_stable sample_cycle = Inl (KeyError ''timestamp'')"
    "update_nav failing_store sort_values_stable sample_cycle sample_db = (sample_db, None)"
    by blast+
  from h0 h run state show ?thesis
    by (intro conjI)
qed


end
